theory Spec2Isabelle
  imports Main
begin

section \<open>JavaScript values and strings\<close>

text \<open>
  The compilers of PuddySQL receive untyped JavaScript values: condition trees, tag criteria
  and placeholder caches are plain objects whose fields are inspected with \<open>typeof\<close>,
  \<open>Array.isArray\<close> and \<open>isJsonObject\<close>.  A value is therefore modelled by the
  datatype \<open>jsval\<close>.  An object is the list of its own enumerable properties in the
  order \<open>Object.entries\<close> lists them.  Numbers are modelled as integers (the range in
  which JavaScript prints a number as a plain decimal and \<open>++\<close> is exact), strings as
  lists of character units below 256, and upper-casing acts on the ASCII letters.
\<close>

datatype jsval =
    JUndef
  | JNull
  | JBool bool
  | JNum int
  | JStr string
  | JArr "jsval list"
  | JObj "(string \<times> jsval) list"

datatype error =
    ConditionKeyInvalid
  | ConditionKeyExists string
  | ConditionHandlerInvalid
  | ConditionOperatorInvalid
  | ValueHandlerInvalid
  | FuncNameInvalid
  | EditParamInvalid
  | OperatorInvalid
  | InvalidParseWhere string
  | TypeError string
  | EmptyInput
  | ParseLimitExceeded int
  | UnexpectedClosingParen nat
  | UnclosedParen int
  | UnclosedQuote string

definition digit_char :: "nat \<Rightarrow> char" where
  "digit_char d = ''0123456789'' ! d"

fun show_nat :: "nat \<Rightarrow> string" where
  "show_nat n = (if n < 10 then [digit_char n] else show_nat (n div 10) @ [digit_char (n mod 10)])"

declare show_nat.simps [simp del]

definition show_int :: "int \<Rightarrow> string" where
  "show_int i = (if i < 0 then CHR ''-'' # show_nat (nat (- i)) else show_nat (nat i))"

fun join :: "string \<Rightarrow> string list \<Rightarrow> string" where
  "join sep [] = []"
| "join sep [x] = x"
| "join sep (x # y # ys) = x @ sep @ join sep (y # ys)"

text \<open>\<open>String(v)\<close>, the conversion a template literal applies to an interpolated value.\<close>

fun js_to_string :: "jsval \<Rightarrow> string" where
  "js_to_string JUndef = ''undefined''"
| "js_to_string JNull = ''null''"
| "js_to_string (JBool b) = (if b then ''true'' else ''false'')"
| "js_to_string (JNum n) = show_int n"
| "js_to_string (JStr s) = s"
| "js_to_string (JArr vs) =
     join '','' (map (\<lambda>v. if v = JUndef \<or> v = JNull then [] else js_to_string v) vs)"
| "js_to_string (JObj fs) = ''[object Object]''"

fun truthy :: "jsval \<Rightarrow> bool" where
  "truthy JUndef = False"
| "truthy JNull = False"
| "truthy (JBool b) = b"
| "truthy (JNum n) = (n \<noteq> 0)"
| "truthy (JStr s) = (s \<noteq> [])"
| "truthy (JArr vs) = True"
| "truthy (JObj fs) = True"

text \<open>
  Modelled from the spec: \<open>isJsonObject\<close> of the package tiny-essentials, which is not
  part of the repository; it holds exactly of plain objects (not arrays, not \<open>null\<close>).
\<close>

fun isJsonObject :: "jsval \<Rightarrow> bool" where
  "isJsonObject (JObj fs) = True"
| "isJsonObject v = False"

fun isArray :: "jsval \<Rightarrow> bool" where
  "isArray (JArr vs) = True"
| "isArray v = False"

text \<open>Property access \<open>o.k\<close> on an object given by its property list.\<close>

definition get_prop :: "(string \<times> jsval) list \<Rightarrow> string \<Rightarrow> jsval" where
  "get_prop fs k = (case map_of fs k of None \<Rightarrow> JUndef | Some v \<Rightarrow> v)"

definition to_upper_char :: "char \<Rightarrow> char" where
  "to_upper_char c =
     (case map_of (zip ''abcdefghijklmnopqrstuvwxyz'' ''ABCDEFGHIJKLMNOPQRSTUVWXYZ'') c of
        None \<Rightarrow> c
      | Some u \<Rightarrow> u)"

definition toUpperCase :: "string \<Rightarrow> string" where
  "toUpperCase s = map to_upper_char s"

definition is_space :: "char \<Rightarrow> bool" where
  "is_space c = ((of_char c :: nat) \<in> {9, 10, 11, 12, 13, 32, 160})"

definition trim :: "string \<Rightarrow> string" where
  "trim s = rev (dropWhile is_space (rev (dropWhile is_space s)))"

definition startsWith :: "string \<Rightarrow> string \<Rightarrow> bool" where
  "startsWith s pat = (take (length pat) s = pat)"

fun str_includes :: "string \<Rightarrow> string \<Rightarrow> bool" where
  "str_includes [] pat = (pat = [])"
| "str_includes (c # cs) pat = (startsWith (c # cs) pat \<or> str_includes cs pat)"

text \<open>
  \<open>s.replaceAll(pat, rep)\<close> for a string pattern: the occurrences are found from left to
  right without overlap; the empty pattern matches before every unit and at the end.
\<close>

function replaceAll_from :: "string \<Rightarrow> string \<Rightarrow> string \<Rightarrow> string" where
  "replaceAll_from pat rep [] = []"
| "replaceAll_from pat rep (c # cs) =
     (if pat \<noteq> [] \<and> startsWith (c # cs) pat
      then rep @ replaceAll_from pat rep (drop (length pat - 1) cs)
      else c # replaceAll_from pat rep cs)"
  by pat_completeness auto
termination
  by (relation "measure (\<lambda>(pat, rep, s). length s)") auto

definition replaceAll :: "string \<Rightarrow> string \<Rightarrow> string \<Rightarrow> string" where
  "replaceAll s pat rep =
     (if pat = [] then rep @ concat (map (\<lambda>c. c # rep) s) else replaceAll_from pat rep s)"

section \<open>The placeholder cache\<close>

text \<open>
  \<open>Pcache\<close> is the record \<open>{ index, values }\<close> every compile mutates in place; the
  model passes it in and returns it updated.  A caller may hand over anything, so the
  argument of a compile is a \<open>cache_arg\<close>: \<open>undefined\<close> (the parameter's default, a
  fresh cache, is used), some other value that is not a plain object, or an object whose
  \<open>index\<close> is a number or not (\<open>None\<close>) and whose \<open>values\<close> is an array or not.
\<close>

record pcache =
  c_index :: int
  c_values :: "jsval list"

datatype cache_arg =
    CacheUndefined
  | CacheNotObject
  | CacheObject "int option" "jsval list option"

fun cache_of :: "pcache \<Rightarrow> cache_arg" where
  "cache_of pc = CacheObject (Some (c_index pc)) (Some (c_values pc))"

section \<open>The operator registry (PuddySqlQuery)\<close>

text \<open>
  \<open>#conditions\<close> maps a key to a resolver that receives the leaf object and returns an
  object with any of \<open>operator\<close>, \<open>column\<close>, \<open>value\<close>, \<open>valType\<close>;
  \<open>#customValFunc\<close> maps a key to the transform applied to the placeholder text.  Both
  are plain objects created by \<open>{}\<close>, so a property read also finds the members they
  inherit from \<open>Object.prototype\<close>.
\<close>

type_synonym cond_handler = "(string \<times> jsval) list \<Rightarrow> jsval"

record registry =
  conditions :: "string \<rightharpoonup> cond_handler"
  customValFunc :: "string \<rightharpoonup> (string \<Rightarrow> string)"

definition empty_registry :: registry where
  "empty_registry = \<lparr> conditions = Map.empty, customValFunc = Map.empty \<rparr>"

definition object_prototype_names :: "string list" where
  "object_prototype_names =
     [''constructor'', ''__defineGetter__'', ''__defineSetter__'', ''hasOwnProperty'',
      ''__lookupGetter__'', ''__lookupSetter__'', ''isPrototypeOf'', ''propertyIsEnumerable'',
      ''toString'', ''valueOf'', ''__proto__'', ''toLocaleString'']"

datatype handler_arg =
    HString string
  | HObject "(string \<times> jsval) list"
  | HFunction cond_handler
  | HOther

datatype vhandler_arg =
    VNull
  | VFunction "string \<Rightarrow> string"
  | VOther

text \<open>\<open>addCondition(key, conditionHandler, valueHandler = null)\<close>; the result pairs the
  error thrown, if any, with the registry after the call.\<close>

definition addCondition ::
  "jsval \<Rightarrow> handler_arg \<Rightarrow> vhandler_arg \<Rightarrow> registry \<Rightarrow> error option \<times> registry" where
  "addCondition key conditionHandler valueHandler reg =
     (case key of
        JStr k \<Rightarrow>
          if trim k = [] then (Some ConditionKeyInvalid, reg)
          else if conditions reg k \<noteq> None \<or> customValFunc reg k \<noteq> None
                  \<or> k \<in> set object_prototype_names
          then (Some (ConditionKeyExists k), reg)
          else if conditionHandler = HOther then (Some ConditionHandlerInvalid, reg)
          else if (case conditionHandler of
                     HObject fs \<Rightarrow>
                       (case get_prop fs ''operator'' of
                          JStr opr \<Rightarrow> trim opr = []
                        | _ \<Rightarrow> True)
                   | _ \<Rightarrow> False)
          then (Some ConditionOperatorInvalid, reg)
          else if valueHandler = VOther then (Some ValueHandlerInvalid, reg)
          else
            (let h = (case conditionHandler of
                        HString s \<Rightarrow> (\<lambda>c. JObj [(''operator'', JStr s)])
                      | HObject fs \<Rightarrow> (\<lambda>c. JObj fs)
                      | HFunction f \<Rightarrow> f
                      | HOther \<Rightarrow> (\<lambda>c. JUndef));
                 reg1 = reg\<lparr> conditions := (conditions reg)(k \<mapsto> h) \<rparr>
             in (None,
                 (case valueHandler of
                    VFunction f \<Rightarrow> reg1\<lparr> customValFunc := (customValFunc reg1)(k \<mapsto> f) \<rparr>
                  | _ \<Rightarrow> reg1)))
      | _ \<Rightarrow> (Some ConditionKeyInvalid, reg))"

text \<open>The resolver and the transform \<open>addConditionV2(funcName, editParamByDefault,
  operator)\<close> registers.\<close>

definition v2_handler :: "string \<Rightarrow> bool \<Rightarrow> string \<Rightarrow> cond_handler" where
  "v2_handler funcName editParamByDefault operator = (\<lambda>condition.
     JObj [(''operator'',
              (case get_prop condition ''newOp'' of JStr s \<Rightarrow> JStr s | _ \<Rightarrow> JStr operator)),
           (''valType'',
              (case get_prop condition ''funcName'' of
                 JStr s \<Rightarrow> JStr s
               | v \<Rightarrow> if editParamByDefault \<and> v \<noteq> JNull then JStr funcName else JNull)),
           (''column'', JStr (funcName @ ''('' @ js_to_string (get_prop condition ''column'') @ '')''))])"

definition v2_value :: "string \<Rightarrow> string \<Rightarrow> string" where
  "v2_value funcName = (\<lambda>param. funcName @ ''('' @ param @ '')'')"

definition addConditionV2 ::
  "jsval \<Rightarrow> jsval \<Rightarrow> jsval \<Rightarrow> registry \<Rightarrow> error option \<times> registry" where
  "addConditionV2 funcName editParamByDefault operator reg =
     (case funcName of
        JStr f \<Rightarrow>
          if trim f = [] then (Some FuncNameInvalid, reg)
          else (case editParamByDefault of
                  JBool e \<Rightarrow>
                    (case operator of
                       JStr opr \<Rightarrow>
                         if trim opr = [] then (Some OperatorInvalid, reg)
                         else addCondition (JStr f) (HFunction (v2_handler f e opr))
                                (VFunction (v2_value f)) reg
                     | _ \<Rightarrow> (Some OperatorInvalid, reg))
                | _ \<Rightarrow> (Some EditParamInvalid, reg))
      | _ \<Rightarrow> (Some FuncNameInvalid, reg))"

text \<open>The resolver the constructor registers under \<open>LIKE\<close>.\<close>

definition like_handler :: cond_handler where
  "like_handler = (\<lambda>condition.
     (let lPos = get_prop condition ''lPos'';
          notStr = (case lPos of JStr s \<Rightarrow> False | _ \<Rightarrow> True)
      in JObj [(''operator'', JStr ''LIKE''),
               (''value'', JStr ((if notStr \<or> lPos = JStr ''left'' then ''%'' else [])
                                 @ js_to_string (get_prop condition ''value'')
                                 @ (if notStr \<or> lPos = JStr ''right'' then ''%'' else [])))]))"

text \<open>The constructor runs its registrations in order; a throw would abort it.\<close>

fun run_steps :: "(registry \<Rightarrow> error option \<times> registry) list \<Rightarrow> registry \<Rightarrow> error option \<times> registry" where
  "run_steps [] reg = (None, reg)"
| "run_steps (s # ss) reg =
     (case s reg of
        (Some e, reg') \<Rightarrow> (Some e, reg')
      | (None, reg') \<Rightarrow> run_steps ss reg')"

definition v2_default :: "string \<Rightarrow> registry \<Rightarrow> error option \<times> registry" where
  "v2_default f = addConditionV2 (JStr f) (JBool False) (JStr ''='')"

definition constructor_steps :: "(registry \<Rightarrow> error option \<times> registry) list" where
  "constructor_steps =
     [addCondition (JStr ''LIKE'') (HFunction like_handler) VNull,
      addCondition (JStr ''NOT'') (HString ''!='') VNull,
      addCondition (JStr ''='') (HString ''='') VNull,
      addCondition (JStr ''!='') (HString ''!='') VNull,
      addCondition (JStr ''>='') (HString ''>='') VNull,
      addCondition (JStr ''<='') (HString ''<='') VNull,
      addCondition (JStr ''>'') (HString ''>'') VNull,
      addCondition (JStr ''<'') (HString ''<'') VNull,
      addConditionV2 (JStr ''SOUNDEX'') (JBool True) (JStr ''=''),
      v2_default ''LOWER'', v2_default ''UPPER'',
      v2_default ''TRIM'', v2_default ''LTRIM'', v2_default ''RTRIM'',
      v2_default ''LENGTH'',
      v2_default ''ABS'', v2_default ''ROUND'',
      addConditionV2 (JStr ''CEIL'') (JBool False) (JStr ''>=''),
      addConditionV2 (JStr ''FLOOR'') (JBool False) (JStr ''<=''),
      v2_default ''COALESCE'',
      v2_default ''HEX'', v2_default ''QUOTE'',
      v2_default ''UNICODE'', v2_default ''CHAR'',
      v2_default ''TYPEOF'',
      v2_default ''DATE'', v2_default ''TIME'', v2_default ''DATETIME'', v2_default ''JULIANDAY'']"

text \<open>The function names the constructor registers through \<open>addConditionV2\<close>.\<close>

definition v2_names :: "string list" where
  "v2_names = [''SOUNDEX'', ''LOWER'', ''UPPER'', ''TRIM'', ''LTRIM'', ''RTRIM'', ''LENGTH'', ''ABS'',
     ''ROUND'', ''CEIL'', ''FLOOR'', ''COALESCE'', ''HEX'', ''QUOTE'', ''UNICODE'', ''CHAR'', ''TYPEOF'',
     ''DATE'', ''TIME'', ''DATETIME'', ''JULIANDAY'']"

definition new_PuddySqlQuery :: "error option \<times> registry" where
  "new_PuddySqlQuery = run_steps constructor_steps empty_registry"


section \<open>The generic condition compiler (PuddySqlQuery.parseWhere)\<close>


text \<open>Reading a property of any value: only a plain object has the properties read here.\<close>

definition member :: "jsval \<Rightarrow> string \<Rightarrow> jsval" where
  "member v k = (case v of JObj fs \<Rightarrow> get_prop fs k | _ \<Rightarrow> JUndef)"

definition inherited_call :: "registry \<Rightarrow> string \<Rightarrow> string \<Rightarrow> (error + string) option" where
  "inherited_call reg name param =
     (if name = ''constructor'' then Some (Inr param)
      else if name \<in> set [''toString'', ''toLocaleString'', ''valueOf'']
        then Some (Inr ''[object Object]'')
      else if name \<in> set [''hasOwnProperty'', ''propertyIsEnumerable'']
        then Some (Inr (if customValFunc reg param \<noteq> None then ''true'' else ''false''))
      else if name = ''isPrototypeOf'' then Some (Inr ''false'')
      else if name \<in> set [''__lookupGetter__'', ''__lookupSetter__'']
        then Some (Inr ''undefined'')
      else if name \<in> set [''__defineGetter__'', ''__defineSetter__'']
        then Some (Inl (TypeError ''Expecting function''))
      else None)"

definition getParamResult :: "registry \<Rightarrow> jsval \<Rightarrow> pcache \<Rightarrow> (error + string) \<times> pcache" where
  "getParamResult reg valType pc =
     (let newIndex = c_index pc;
          pc' = pc\<lparr> c_index := c_index pc + 1 \<rparr>;
          param = CHR ''$'' # show_int newIndex;
          key = js_to_string valType
      in case customValFunc reg key of
           Some f \<Rightarrow> (Inr (f param), pc')
         | None \<Rightarrow>
             (case inherited_call reg key param of
                Some r \<Rightarrow> (r, pc')
              | None \<Rightarrow> (Inr param, pc')))"

definition resolve ::
  "registry \<Rightarrow> jsval \<Rightarrow> (string \<times> jsval) list \<Rightarrow> error + (jsval \<times> string \<times> jsval \<times> jsval)" where
  "resolve reg col cond =
     (let operator = ''='';
          val = get_prop cond ''value'';
          valType = get_prop cond ''valType''
      in case get_prop cond ''operator'' of
           JStr s \<Rightarrow>
             (case conditions reg (toUpperCase s) of
                Some h \<Rightarrow>
                  (let result = h cond in
                   if result = JUndef \<or> result = JNull
                   then Inl (TypeError ''Cannot read properties of the resolver result'')
                   else Inr
                     ((case member result ''column'' of JStr c \<Rightarrow> JStr c | _ \<Rightarrow> col),
                      (case member result ''operator'' of JStr opr \<Rightarrow> opr | _ \<Rightarrow> operator),
                      (if member result ''value'' \<noteq> JUndef then member result ''value'' else val),
                      (case member result ''valType'' of JStr t \<Rightarrow> JStr t | _ \<Rightarrow> valType)))
              | None \<Rightarrow> Inr (col, operator, val, valType))
         | _ \<Rightarrow> Inr (col, operator, val, valType))"

definition push :: "jsval \<Rightarrow> pcache \<Rightarrow> pcache" where
  "push v pc = pc\<lparr> c_values := c_values pc @ [v] \<rparr>"

definition parseWhere_leaf :: "registry \<Rightarrow> pcache \<Rightarrow> (string \<times> jsval) list \<Rightarrow> (error + string) \<times> pcache" where
  "parseWhere_leaf reg pc grp =
     (case resolve reg (get_prop grp ''column'') grp of
        Inl e \<Rightarrow> (Inl e, pc)
      | Inr (col, operator, val, valType) \<Rightarrow>
          (case getParamResult reg valType (push val pc) of
             (Inl e, pc') \<Rightarrow> (Inl e, pc')
           | (Inr p, pc') \<Rightarrow> (Inr (js_to_string col @ '' '' @ operator @ '' '' @ p), pc')))"

fun flat_entries ::
  "registry \<Rightarrow> pcache \<Rightarrow> (string \<times> jsval) list \<Rightarrow> (error + string list) \<times> pcache" where
  "flat_entries reg pc [] = (Inr [], pc)"
| "flat_entries reg pc ((newCol, cond) # es) =
     (case cond of
        JObj cfs \<Rightarrow>
          (case resolve reg (JStr newCol) cfs of
             Inl e \<Rightarrow> (Inl e, pc)
           | Inr (col, operator, val, valType) \<Rightarrow>
               (case getParamResult reg valType (push val pc) of
                  (Inl e, pc') \<Rightarrow> (Inl e, pc')
                | (Inr p, pc') \<Rightarrow>
                    (case flat_entries reg pc' es of
                       (Inl e, pc'') \<Rightarrow> (Inl e, pc'')
                     | (Inr ss, pc'') \<Rightarrow>
                         (Inr ((''('' @ js_to_string col @ '' '' @ operator @ '' $'' @ p @ '')'') # ss),
                          pc''))))
      | _ \<Rightarrow> (Inl (InvalidParseWhere newCol), pc))"

lemma size_get_prop: "get_prop fs k = JArr cs \<Longrightarrow> size (JArr cs) < size (JObj fs)"
  apply (auto simp: get_prop_def split: option.splits)
  apply (drule map_of_SomeD)
  apply (induction fs)
   apply auto
  done

function parseWhere_node :: "registry \<Rightarrow> pcache \<Rightarrow> jsval \<Rightarrow> (error + string) \<times> pcache"
  and parseWhere_conds :: "registry \<Rightarrow> pcache \<Rightarrow> jsval list \<Rightarrow> (error + string list) \<times> pcache" where
  "parseWhere_node reg pc grp =
     (case grp of
        JObj fs \<Rightarrow>
          (case get_prop fs ''conditions'' of
             JArr cs \<Rightarrow>
               (let logic = (case get_prop fs ''group'' of
                               JStr s \<Rightarrow> if toUpperCase s = ''OR'' then ''OR'' else ''AND''
                             | _ \<Rightarrow> ''AND'')
                in case parseWhere_conds reg pc cs of
                     (Inl e, pc') \<Rightarrow> (Inl e, pc')
                   | (Inr innerConditions, pc') \<Rightarrow>
                       (Inr (join ('' '' @ logic @ '' '') innerConditions), pc'))
           | _ \<Rightarrow>
               if \<not> truthy (get_prop fs ''column'')
               then (case flat_entries reg pc fs of
                       (Inl e, pc') \<Rightarrow> (Inl e, pc')
                     | (Inr innerConditions, pc') \<Rightarrow> (Inr (join '' AND '' innerConditions), pc'))
               else parseWhere_leaf reg pc fs)
      | _ \<Rightarrow> (Inr [], pc))"
| "parseWhere_conds reg pc [] = (Inr [], pc)"
| "parseWhere_conds reg pc (cond # cs) =
     (case parseWhere_node reg pc cond of
        (Inl e, pc') \<Rightarrow> (Inl e, pc')
      | (Inr s, pc') \<Rightarrow>
          (case parseWhere_conds reg pc' cs of
             (Inl e, pc'') \<Rightarrow> (Inl e, pc'')
           | (Inr ss, pc'') \<Rightarrow> (Inr ((''('' @ s @ '')'') # ss), pc'')))"
  by pat_completeness auto
termination
  apply (relation "measure (\<lambda>x. case x of Inl (reg, pc, g) \<Rightarrow> size g | Inr (reg, pc, cs) \<Rightarrow> size (JArr cs))")
     apply (auto dest: size_get_prop)
  done

declare parseWhere_node.simps [simp del]



text \<open>
  \<open>parseWhere(pCache = { index: 1, values: [] }, group = {})\<close>: an \<open>undefined\<close>
  argument takes the parameter's default; a cache or group that is not a plain object
  gives the empty string; an ill-typed \<open>index\<close> or \<open>values\<close> is reset before
  compiling.  The recursive calls of the source pass the same, already repaired, cache
  object, so they are \<open>parseWhere_node\<close>.
\<close>

fun repair :: "cache_arg \<Rightarrow> pcache" where
  "repair (CacheObject i vs) =
     \<lparr> c_index = (case i of Some n \<Rightarrow> n | None \<Rightarrow> 1),
       c_values = (case vs of Some v \<Rightarrow> v | None \<Rightarrow> []) \<rparr>"
| "repair c = \<lparr> c_index = 1, c_values = [] \<rparr>"

definition parseWhere :: "registry \<Rightarrow> cache_arg \<Rightarrow> jsval \<Rightarrow> (error + string) \<times> cache_arg" where
  "parseWhere reg pCache group0 =
     (let grp = (if group0 = JUndef then JObj [] else group0) in
      if pCache = CacheNotObject \<or> \<not> isJsonObject grp then (Inr [], pCache)
      else (case parseWhere_node reg (repair pCache) grp of
              (r, pc') \<Rightarrow> (r, if pCache = CacheUndefined then CacheUndefined else cache_of pc')))"


section \<open>The tag criteria compiler (PuddySqlTags.parseWhere, TinySqlTags.parseWhere)\<close>

text \<open>
  The fields of a \<open>PuddySqlTags\<close> instance.  \<open>tagInputs\<close> lists the entries of
  \<open>#tagInputs\<close> in the order \<open>for (const symbol in ...)\<close> visits them; list names are
  ordinary property names (not \<open>__proto__\<close>).
\<close>

record special_query =
  sq_title :: string
  sq_parser :: "(string \<Rightarrow> string) option"

record tag_input =
  ti_list :: string
  ti_valueKey :: string

record tags_cfg =
  jsonEach :: "string option"
  specialQueries :: "special_query list"
  defaultColumn :: string
  wildcardA :: string
  wildcardB :: string
  noRepeat :: bool
  useJsonEach :: bool
  parseLimit :: int
  defaultValueName :: "string option"
  tagInputs :: "(string \<times> tag_input) list"

definition new_PuddySqlTags :: "string \<Rightarrow> tags_cfg" where
  "new_PuddySqlTags col =
     \<lparr> jsonEach = Some ''json_array_elements_text'',
       specialQueries = [],
       defaultColumn = col,
       wildcardA = ''*'',
       wildcardB = ''?'',
       noRepeat = False,
       useJsonEach = True,
       parseLimit = - 1,
       defaultValueName = None,
       tagInputs = [(''^'', \<lparr> ti_list = ''boosts'', ti_valueKey = ''boost'' \<rparr>),
                    (''~'', \<lparr> ti_list = ''fuzzies'', ti_valueKey = ''fuzzy'' \<rparr>)] \<rparr>"

definition opt_string :: "string option \<Rightarrow> string" where
  "opt_string s = (case s of None \<Rightarrow> ''null'' | Some t \<Rightarrow> t)"

definition createQuery :: "tags_cfg \<Rightarrow> jsval \<Rightarrow> jsval \<Rightarrow> string \<Rightarrow> string \<Rightarrow> bool \<Rightarrow> string" where
  "createQuery cfg tagsColumn tagsValue funcName param useLike =
     funcName @ '' (SELECT 1 FROM '' @
       (if useJsonEach cfg
        then opt_string (jsonEach cfg) @ ''('' @ js_to_string tagsColumn @ '') WHERE value '' @
             (if useLike then ''LIKE'' else ''='') @ '' '' @ param
        else js_to_string tagsColumn @ '' WHERE '' @ js_to_string tagsColumn @ ''.'' @
             js_to_string tagsValue @ '' '' @ (if useLike then ''LIKE'' else ''='') @ '' '' @ param)
     @ '')''"

text \<open>\<open>cleanTag.replace(/([%_])/g, '\\$1')\<close>: a backslash before every \<open>%\<close> and \<open>_\<close>.\<close>

definition escape_like :: "string \<Rightarrow> string" where
  "escape_like s = concat (map (\<lambda>c. if c = CHR ''%'' \<or> c = CHR ''_'' then [CHR 0x5C, c] else [c]) s)"

text \<open>\<open>filterTag\<close>: the placeholder text, whether the comparison is \<open>LIKE\<close>, whether the
  tag is negated, and the cache after the push.  A tag that is not a string throws before
  the cache is touched.\<close>

definition filterTag ::
  "tags_cfg \<Rightarrow> bool \<Rightarrow> jsval \<Rightarrow> pcache \<Rightarrow> error + ((string \<times> bool \<times> bool) \<times> pcache)" where
  "filterTag cfg allowWildcards tag pc =
     (case tag of
        JStr t \<Rightarrow>
          (let isNot = startsWith t ''!'';
               cleanTag = (if isNot then drop 1 t else t);
               param = CHR ''$'' # show_int (c_index pc);
               usesWildcard = (allowWildcards \<and>
                  (str_includes cleanTag (wildcardA cfg) \<or> str_includes cleanTag (wildcardB cfg)));
               filteredTag = (if usesWildcard
                  then replaceAll (replaceAll (escape_like cleanTag) (wildcardA cfg) ''%'')
                         (wildcardB cfg) ''_''
                  else cleanTag)
           in Inr ((param, usesWildcard, isNot),
                   \<lparr> c_index = c_index pc + 1, c_values = c_values pc @ [JStr filteredTag] \<rparr>))
      | _ \<Rightarrow> Inl (TypeError ''Each tag must be a string''))"

definition tagQuery ::
  "tags_cfg \<Rightarrow> jsval \<Rightarrow> jsval \<Rightarrow> bool \<Rightarrow> jsval \<Rightarrow> pcache \<Rightarrow> (error + string) \<times> pcache" where
  "tagQuery cfg tagsColumn tagsValue allowWildcards tag pc =
     (case filterTag cfg allowWildcards tag pc of
        Inl e \<Rightarrow> (Inl e, pc)
      | Inr ((param, usesWildcard, isNot), pc') \<Rightarrow>
          (Inr (createQuery cfg tagsColumn tagsValue ((if isNot then ''NOT '' else []) @ ''EXISTS'')
                  param usesWildcard), pc'))"

text \<open>\<open>clause.map(...)\<close> over the members of an OR-group.\<close>

fun tag_ors ::
  "tags_cfg \<Rightarrow> jsval \<Rightarrow> jsval \<Rightarrow> bool \<Rightarrow> jsval list \<Rightarrow> pcache \<Rightarrow> (error + string list) \<times> pcache" where
  "tag_ors cfg tc tv aw [] pc = (Inr [], pc)"
| "tag_ors cfg tc tv aw (tag # tags) pc =
     (case tagQuery cfg tc tv aw tag pc of
        (Inl e, pc') \<Rightarrow> (Inl e, pc')
      | (Inr q, pc') \<Rightarrow>
          (case tag_ors cfg tc tv aw tags pc' of
             (Inl e, pc'') \<Rightarrow> (Inl e, pc'')
           | (Inr qs, pc'') \<Rightarrow> (Inr (q # qs), pc'')))"

text \<open>\<open>for (const clause of include)\<close>, collecting \<open>where\<close>.\<close>

fun tag_clauses ::
  "tags_cfg \<Rightarrow> jsval \<Rightarrow> jsval \<Rightarrow> bool \<Rightarrow> jsval list \<Rightarrow> pcache \<Rightarrow> (error + string list) \<times> pcache" where
  "tag_clauses cfg tc tv aw [] pc = (Inr [], pc)"
| "tag_clauses cfg tc tv aw (clause # clauses) pc =
     (case (case clause of
              JArr tags \<Rightarrow>
                (case tag_ors cfg tc tv aw tags pc of
                   (Inl e, pc') \<Rightarrow> (Inl e, pc')
                 | (Inr ors, pc') \<Rightarrow>
                     (Inr (if ors \<noteq> [] then [''('' @ join '' OR '' ors @ '')''] else []), pc'))
            | _ \<Rightarrow>
                (case tagQuery cfg tc tv aw clause pc of
                   (Inl e, pc') \<Rightarrow> (Inl e, pc')
                 | (Inr q, pc') \<Rightarrow> (Inr [q], pc'))) of
        (Inl e, pc') \<Rightarrow> (Inl e, pc')
      | (Inr ws, pc') \<Rightarrow>
          (case tag_clauses cfg tc tv aw clauses pc' of
             (Inl e, pc'') \<Rightarrow> (Inl e, pc'')
           | (Inr ws', pc'') \<Rightarrow> (Inr (ws @ ws'), pc'')))"

definition tags_where ::
  "tags_cfg \<Rightarrow> (string \<times> jsval) list \<Rightarrow> jsval list \<Rightarrow> pcache \<Rightarrow> (error + string) \<times> pcache" where
  "tags_where cfg grp include pc =
     (let tagsColumn = (if truthy (get_prop grp ''column'') then get_prop grp ''column''
                        else JStr (defaultColumn cfg));
          tagsValue = (if truthy (get_prop grp ''valueName'') then get_prop grp ''valueName''
                       else (case defaultValueName cfg of None \<Rightarrow> JNull | Some n \<Rightarrow> JStr n));
          allowWildcards = (case get_prop grp ''allowWildcards'' of JBool b \<Rightarrow> b | _ \<Rightarrow> False)
      in case tag_clauses cfg tagsColumn tagsValue allowWildcards include pc of
           (Inl e, pc') \<Rightarrow> (Inl e, pc')
         | (Inr wh, pc') \<Rightarrow>
             (Inr (if wh \<noteq> [] then ''('' @ join '' AND '' wh @ '')'' else ''1''), pc'))"

text \<open>
  \<open>PuddySqlTags.parseWhere(group = {}, pCache = { index: 1, values: [] })\<close>, the current
  compiler: every malformed argument is a \<open>TypeError\<close>.
\<close>

definition PuddySqlTags_parseWhere ::
  "tags_cfg \<Rightarrow> jsval \<Rightarrow> cache_arg \<Rightarrow> (error + string) \<times> cache_arg" where
  "PuddySqlTags_parseWhere cfg group0 pCache =
     (let grp = (if group0 = JUndef then JObj [] else group0) in
      if pCache = CacheNotObject then (Inl (TypeError ''Expected pCache to be a valid object''), pCache)
      else (case grp of
              JObj fs \<Rightarrow>
                (case pCache of
                   CacheObject None vs \<Rightarrow> (Inl (TypeError ''Invalid or missing pCache.index''), pCache)
                 | CacheObject (Some i) None \<Rightarrow>
                     (Inl (TypeError ''Invalid or missing pCache.values''), pCache)
                 | _ \<Rightarrow>
                     (case get_prop fs ''include'' of
                        JArr include \<Rightarrow>
                          (case tags_where cfg fs include (repair pCache) of
                             (r, pc') \<Rightarrow>
                               (r, if pCache = CacheUndefined then CacheUndefined else cache_of pc'))
                      | _ \<Rightarrow> (Inl (TypeError ''Expected include to be an array''), pCache)))
            | _ \<Rightarrow> (Inl (TypeError ''Expected group to be a valid object''), pCache)))"

text \<open>
  \<open>TinySqlTags.parseWhere\<close>, the earlier compiler kept in the repository: a malformed
  argument gives the empty string, an ill-typed cache field is reset, and
  \<open>group.include || []\<close> is iterated with \<open>for ... of\<close> (an array by its elements, a
  string by its units, any other truthy value is not iterable).
\<close>

definition iterate :: "jsval \<Rightarrow> error + jsval list" where
  "iterate v =
     (case v of
        JArr vs \<Rightarrow> Inr vs
      | JStr s \<Rightarrow> Inr (map (\<lambda>c. JStr [c]) s)
      | _ \<Rightarrow> Inl (TypeError ''include is not iterable''))"

definition TinySqlTags_parseWhere ::
  "tags_cfg \<Rightarrow> jsval \<Rightarrow> cache_arg \<Rightarrow> (error + string) \<times> cache_arg" where
  "TinySqlTags_parseWhere cfg group0 pCache =
     (let grp = (if group0 = JUndef then JObj [] else group0) in
      if pCache = CacheNotObject then (Inr [], pCache)
      else (case grp of
              JObj fs \<Rightarrow>
                (let pc = repair pCache;
                     back = (\<lambda>pc'. if pCache = CacheUndefined then CacheUndefined else cache_of pc');
                     include = (if truthy (get_prop fs ''include'') then get_prop fs ''include''
                                else JArr [])
                 in case iterate include of
                      Inl e \<Rightarrow> (Inl e, back pc)
                    | Inr clauses \<Rightarrow>
                        (case tags_where cfg fs clauses pc of (r, pc') \<Rightarrow> (r, back pc')))
            | _ \<Rightarrow> (Inr [], pCache)))"

section \<open>The tag expression tokenizer (parseString)\<close>

text \<open>
  A chunk is a bare term or an OR-group of terms.  The scanner state holds the local
  variables of \<open>parseString\<close>; the \<open>Set\<close> \<open>uniqueTags\<close> is a list, of which only
  membership is read.
\<close>

datatype chunk =
    Single string
  | OrGroup "string list"

record scan_state =
  chunks :: "chunk list"
  currentGroup :: "string list"
  buffer :: string
  inQuotes :: bool
  quoteChar :: string
  uniqueTags :: "string list"
  inGroup :: bool
  openParens :: int
  tagCount :: int

definition init_state :: scan_state where
  "init_state = \<lparr> chunks = [], currentGroup = [], buffer = [], inQuotes = False, quoteChar = [],
                   uniqueTags = [], inGroup = False, openParens = 0, tagCount = 0 \<rparr>"

text \<open>\<open>_.defaults(strictConfig, { emptyInput: true, parseLimit: true, openParens: true,
  quoteChar: true })\<close>: a property that is \<open>undefined\<close> becomes \<open>true\<close>; the flag is then
  tested for truthiness.\<close>

definition strict_flag :: "jsval \<Rightarrow> string \<Rightarrow> bool" where
  "strict_flag strictConfig k =
     (let v = member strictConfig k in if v = JUndef then True else truthy v)"

text \<open>\<open>input.replace(/\\s+/g, ' ').trim()\<close>.\<close>

function collapse_ws :: "string \<Rightarrow> string" where
  "collapse_ws [] = []"
| "collapse_ws (c # cs) =
     (if is_space c then CHR '' '' # collapse_ws (dropWhile is_space cs) else c # collapse_ws cs)"
  by pat_completeness auto
termination
  by (relation "measure length") (auto simp: length_dropWhile_le less_Suc_eq_le)

definition normalize_ws :: "string \<Rightarrow> string" where
  "normalize_ws input = trim (collapse_ws input)"

definition flushBuffer :: "tags_cfg \<Rightarrow> bool \<Rightarrow> scan_state \<Rightarrow> error + scan_state" where
  "flushBuffer cfg strictLimit st =
     (let v = trim (buffer st) in
      if v = [] then Inr st
      else if parseLimit cfg < 0 \<or> tagCount st < parseLimit cfg
      then Inr ((if \<not> noRepeat cfg \<or> inGroup st \<or> v \<notin> set (uniqueTags st)
                 then st\<lparr> currentGroup := currentGroup st @ [v],
                          uniqueTags := (if \<not> inGroup st then uniqueTags st @ [v] else uniqueTags st),
                          tagCount := tagCount st + 1 \<rparr>
                 else st)\<lparr> buffer := [] \<rparr>)
      else if strictLimit then Inl (ParseLimitExceeded (parseLimit cfg))
      else Inr (st\<lparr> buffer := [] \<rparr>))"

definition flushGroup :: "scan_state \<Rightarrow> scan_state" where
  "flushGroup st =
     st\<lparr> chunks := (case currentGroup st of
                       [] \<Rightarrow> chunks st
                     | [x] \<Rightarrow> chunks st @ [Single x]
                     | xs \<Rightarrow> chunks st @ [OrGroup xs]),
         currentGroup := [] \<rparr>"

text \<open>
  The loop \<open>for (let i = 0; i < input.length; i++)\<close>: \<open>i\<close> is the position, the string
  argument is \<open>input.slice(i)\<close>.  \<open>strictLimit\<close> and \<open>strictParens\<close> stand for
  \<open>strictMode && strictCfg.parseLimit\<close> and \<open>strictMode && strictCfg.openParens\<close>.
\<close>

fun scan :: "tags_cfg \<Rightarrow> bool \<Rightarrow> bool \<Rightarrow> nat \<Rightarrow> string \<Rightarrow> scan_state \<Rightarrow> error + scan_state" where
  "scan cfg strictLimit strictParens i [] st = Inr st"
| "scan cfg strictLimit strictParens i (c # cs) st =
     (if inQuotes st then
        (if [c] = quoteChar st
         then scan cfg strictLimit strictParens (i + 1) cs (st\<lparr> inQuotes := False, quoteChar := [] \<rparr>)
         else scan cfg strictLimit strictParens (i + 1) cs (st\<lparr> buffer := buffer st @ [c] \<rparr>))
      else if c = CHR 0x22 \<or> c = CHR 0x27 then
        scan cfg strictLimit strictParens (i + 1) cs (st\<lparr> inQuotes := True, quoteChar := [c] \<rparr>)
      else if c = CHR ''('' then
        (case flushBuffer cfg strictLimit (st\<lparr> openParens := openParens st + 1 \<rparr>) of
           Inl e \<Rightarrow> Inl e
         | Inr st' \<Rightarrow>
             scan cfg strictLimit strictParens (i + 1) cs (st'\<lparr> currentGroup := [], inGroup := True \<rparr>))
      else if c = CHR '')'' then
        (if strictParens \<and> openParens st \<le> 0 then Inl (UnexpectedClosingParen i)
         else (case flushBuffer cfg strictLimit (st\<lparr> openParens := openParens st - 1 \<rparr>) of
                 Inl e \<Rightarrow> Inl e
               | Inr st' \<Rightarrow>
                   scan cfg strictLimit strictParens (i + 1) cs ((flushGroup st')\<lparr> inGroup := False \<rparr>)))
      else if toUpperCase (take 4 (c # cs)) = '' AND'' then
        (case flushBuffer cfg strictLimit st of
           Inl e \<Rightarrow> Inl e
         | Inr st' \<Rightarrow> scan cfg strictLimit strictParens (i + 4) (drop 3 cs) (flushGroup st'))
      else if toUpperCase (take 3 (c # cs)) = ''OR '' then
        (case flushBuffer cfg strictLimit st of
           Inl e \<Rightarrow> Inl e
         | Inr st' \<Rightarrow> scan cfg strictLimit strictParens (i + 3) (drop 2 cs) st')
      else scan cfg strictLimit strictParens (i + 1) cs (st\<lparr> buffer := buffer st @ [c] \<rparr>))"

declare scan.simps(2) [simp del]

text \<open>The tokenizing part of \<open>parseString\<close>, on the normalised input: the check for
  empty input, the loop, the checks after the loop and the final flushes.\<close>

definition tokenize :: "tags_cfg \<Rightarrow> bool \<Rightarrow> jsval \<Rightarrow> string \<Rightarrow> error + chunk list" where
  "tokenize cfg strictMode strictConfig input =
     (if strictMode \<and> strict_flag strictConfig ''emptyInput'' \<and> input = [] then Inl EmptyInput
      else (case scan cfg (strictMode \<and> strict_flag strictConfig ''parseLimit'')
                   (strictMode \<and> strict_flag strictConfig ''openParens'') 0 input init_state of
              Inl e \<Rightarrow> Inl e
            | Inr st \<Rightarrow>
                if strictMode \<and> strict_flag strictConfig ''quoteChar'' \<and> inQuotes st
                then Inl (UnclosedQuote (quoteChar st))
                else if strictMode \<and> strict_flag strictConfig ''openParens'' \<and> openParens st > 0
                then Inl (UnclosedParen (openParens st))
                else (case flushBuffer cfg (strictMode \<and> strict_flag strictConfig ''parseLimit'') st of
                        Inl e \<Rightarrow> Inl e
                      | Inr st' \<Rightarrow> Inr (chunks (flushGroup st')))))"

section \<open>Specials extraction (#extractSpecialsFromChunks)\<close>

text \<open>\<open>s.split(sep)\<close> for a string separator; the empty separator splits into units.\<close>

function split_from :: "string \<Rightarrow> string \<Rightarrow> string \<Rightarrow> string list" where
  "split_from sep acc [] = [acc]"
| "split_from sep acc (c # cs) =
     (if sep \<noteq> [] \<and> startsWith (c # cs) sep
      then acc # split_from sep [] (drop (length sep - 1) cs)
      else split_from sep (acc @ [c]) cs)"
  by pat_completeness auto
termination
  by (relation "measure (\<lambda>(sep, acc, s). length s)") auto

definition js_split :: "string \<Rightarrow> string \<Rightarrow> string list" where
  "js_split s sep = (if sep = [] then map (\<lambda>c. [c]) s else split_from sep [] s)"

text \<open>Assigning a property: an existing key keeps its place, a new one goes last.\<close>

fun obj_set :: "'k \<Rightarrow> 'v \<Rightarrow> ('k \<times> 'v) list \<Rightarrow> ('k \<times> 'v) list" where
  "obj_set k v [] = [(k, v)]"
| "obj_set k v ((k', v') # ps) = (if k' = k then (k, v) # ps else (k', v') # obj_set k v ps)"

definition obj_get :: "('k \<times> 'v list) list \<Rightarrow> 'k \<Rightarrow> 'v list" where
  "obj_get ps k = (case map_of ps k of None \<Rightarrow> [] | Some v \<Rightarrow> v)"

text \<open>
  The state of the extraction: \<open>specials\<close>, \<open>outputGroups\<close> (list name to entries),
  \<open>uniqueMap\<close> (list name to the base terms seen) and the set \<open>uniqueTags\<close> of the
  function (here \<open>seenTags\<close>).  \<open>parseFloat\<close> is the JavaScript builtin, taken as a
  parameter \<open>pf\<close>: \<open>None\<close> stands for \<open>NaN\<close>.
\<close>

record extract_state =
  specials :: "jsval list"
  outputGroups :: "(string \<times> jsval list) list"
  uniqueMap :: "(string \<times> string list) list"
  seenTags :: "string list"

definition init_extract :: "tags_cfg \<Rightarrow> extract_state" where
  "init_extract cfg =
     \<lparr> specials = [],
       outputGroups = foldl (\<lambda>og (symbol, ti). obj_set (ti_list ti) [] og) [] (tagInputs cfg),
       uniqueMap = foldl (\<lambda>um (symbol, ti). obj_set (ti_list ti) [] um) [] (tagInputs cfg),
       seenTags = [] \<rparr>"

definition extract_term ::
  "tags_cfg \<Rightarrow> (string \<Rightarrow> jsval option) \<Rightarrow> bool \<Rightarrow> string \<Rightarrow> extract_state \<times> string list
     \<Rightarrow> error + (extract_state \<times> string list)" where
  "extract_term cfg pf isArr trm acc =
     (case acc of (st, remainingTerms) \<Rightarrow>
      (case find (\<lambda>(symbol, ti). str_includes trm symbol) (tagInputs cfg) of
         Some (symbol, ti) \<Rightarrow>
           (case js_split trm symbol of
              termValue # rawValue # rest \<Rightarrow>
                (let v = (case pf (map (\<lambda>c. if c = CHR ''!'' then CHR ''-'' else c) rawValue) of
                            None \<Rightarrow> JNum 1
                          | Some x \<Rightarrow> x);
                     base = trim termValue;
                     st1 = (if base \<notin> set (obj_get (uniqueMap st) (ti_list ti))
                            then st\<lparr> outputGroups :=
                                       obj_set (ti_list ti)
                                         (obj_get (outputGroups st) (ti_list ti) @
                                            [JObj (obj_set (ti_valueKey ti) v [(''term'', JStr base)])])
                                         (outputGroups st),
                                     uniqueMap :=
                                       obj_set (ti_list ti)
                                         (obj_get (uniqueMap st) (ti_list ti) @ [base]) (uniqueMap st) \<rparr>
                            else st)
                 in if \<not> noRepeat cfg \<or> isArr \<or> base \<notin> set (seenTags st1)
                    then Inr ((if \<not> isArr then st1\<lparr> seenTags := seenTags st1 @ [base] \<rparr> else st1),
                              remainingTerms @ [base])
                    else Inr (st1, remainingTerms))
            | _ \<Rightarrow> Inl (TypeError ''Cannot read properties of undefined (reading replace)''))
       | None \<Rightarrow>
           if str_includes trm '':'' then
             (let parts = js_split trm '':'';
                  key = hd parts;
                  val = join '':'' (tl parts)
              in case find (\<lambda>q. sq_title q = key) (specialQueries cfg) of
                   Some found \<Rightarrow>
                     Inr (st\<lparr> specials := specials st @
                                [JObj [(''key'', JStr key),
                                       (''value'', JStr (case sq_parser found of
                                                           None \<Rightarrow> val
                                                         | Some f \<Rightarrow> f val))]] \<rparr>,
                          remainingTerms)
                 | None \<Rightarrow> Inr (st, remainingTerms @ [trm]))
           else if \<not> noRepeat cfg \<or> isArr \<or> trm \<notin> set (seenTags st)
           then Inr ((if \<not> isArr then st\<lparr> seenTags := seenTags st @ [trm] \<rparr> else st),
                     remainingTerms @ [trm])
           else Inr (st, remainingTerms)))"

fun extract_terms ::
  "tags_cfg \<Rightarrow> (string \<Rightarrow> jsval option) \<Rightarrow> bool \<Rightarrow> string list \<Rightarrow> extract_state \<times> string list
     \<Rightarrow> error + (extract_state \<times> string list)" where
  "extract_terms cfg pf isArr [] acc = Inr acc"
| "extract_terms cfg pf isArr (t # ts) acc =
     (case extract_term cfg pf isArr t acc of
        Inl e \<Rightarrow> Inl e
      | Inr acc' \<Rightarrow> extract_terms cfg pf isArr ts acc')"

text \<open>The loop \<open>for (let i = chunks.length - 1; i >= 0; i--)\<close>; the first argument is
  \<open>i + 1\<close>.  A chunk left without terms is spliced out, otherwise it is overwritten.\<close>

fun extract_loop ::
  "tags_cfg \<Rightarrow> (string \<Rightarrow> jsval option) \<Rightarrow> nat \<Rightarrow> chunk list \<Rightarrow> extract_state
     \<Rightarrow> error + (chunk list \<times> extract_state)" where
  "extract_loop cfg pf 0 cks st = Inr (cks, st)"
| "extract_loop cfg pf (Suc i) cks st =
     (let grp = cks ! i;
          isArr = (case grp of OrGroup ts \<Rightarrow> True | Single t \<Rightarrow> False);
          terms = (case grp of OrGroup ts \<Rightarrow> ts | Single t \<Rightarrow> [t])
      in case extract_terms cfg pf isArr terms (st, []) of
           Inl e \<Rightarrow> Inl e
         | Inr (st', remainingTerms) \<Rightarrow>
             extract_loop cfg pf i
               (if remainingTerms = [] then take i cks @ drop (Suc i) cks
                else cks[i := (if isArr then OrGroup remainingTerms
                               else Single (hd remainingTerms))])
               st')"

definition extractSpecialsFromChunks ::
  "tags_cfg \<Rightarrow> (string \<Rightarrow> jsval option) \<Rightarrow> chunk list
     \<Rightarrow> error + (chunk list \<times> (string \<times> jsval) list)" where
  "extractSpecialsFromChunks cfg pf cks =
     (case extract_loop cfg pf (length cks) cks (init_extract cfg) of
        Inl e \<Rightarrow> Inl e
      | Inr (cks', st) \<Rightarrow>
          Inr (cks',
               foldl (\<lambda>obj (name, entries). obj_set name (JArr entries) obj)
                 [(''specials'', JArr (specials st))] (outputGroups st)))"

fun chunk_to_js :: "chunk \<Rightarrow> jsval" where
  "chunk_to_js (Single t) = JStr t"
| "chunk_to_js (OrGroup ts) = JArr (map JStr ts)"

text \<open>
  \<open>PuddySqlTags.parseString(input, strictMode = false, strictConfig = {})\<close>; the result
  is the object \<open>{ column, include: chunks, ...outputGroups }\<close>.
\<close>

definition PuddySqlTags_parseString ::
  "tags_cfg \<Rightarrow> (string \<Rightarrow> jsval option) \<Rightarrow> jsval \<Rightarrow> bool \<Rightarrow> jsval \<Rightarrow> error + jsval" where
  "PuddySqlTags_parseString cfg pf input strictMode strictConfig =
     (case input of
        JStr s \<Rightarrow>
          (case tokenize cfg strictMode strictConfig (normalize_ws s) of
             Inl e \<Rightarrow> Inl e
           | Inr cks \<Rightarrow>
               (case extractSpecialsFromChunks cfg pf cks of
                  Inl e \<Rightarrow> Inl e
                | Inr (cks', groups) \<Rightarrow>
                    Inr (JObj (foldl (\<lambda>obj (name, v). obj_set name v obj)
                                 [(''column'', JStr (defaultColumn cfg)),
                                  (''include'', JArr (map chunk_to_js cks'))]
                                 groups))))
      | _ \<Rightarrow> Inl (TypeError ''Expected input to be a string''))"

text \<open>\<open>TinySqlTags.parseString(input)\<close>, the earlier tokenizer: the same loop with no
  strict mode (and no counter of parentheses, which only the strict checks read).  It has
  no check of the input's type: \<open>input.replace\<close> on a value that is not a string is the
  engine's own \<open>TypeError\<close>.\<close>

definition TinySqlTags_parseString ::
  "tags_cfg \<Rightarrow> (string \<Rightarrow> jsval option) \<Rightarrow> jsval \<Rightarrow> error + jsval" where
  "TinySqlTags_parseString cfg pf input =
     (case input of
        JStr s \<Rightarrow> PuddySqlTags_parseString cfg pf (JStr s) False (JObj [])
      | _ \<Rightarrow> Inl (TypeError ''input.replace is not a function''))"

section \<open>Definitions taken from the specification's words\<close>



text \<open>
  The notions of the specials extraction, in the specification's words: a term is taken by
  the symbol step when it contains a registered symbol; otherwise, if it contains a colon,
  its key is the part before the first colon and its value the rest; it is a special when
  that key is the title of a registered special query.
\<close>

definition taken_by_symbol :: "tags_cfg \<Rightarrow> string \<Rightarrow> bool" where
  "taken_by_symbol cfg t = (find (\<lambda>(symbol, ti). str_includes t symbol) (tagInputs cfg) \<noteq> None)"

definition symbol_base :: "tags_cfg \<Rightarrow> string \<Rightarrow> string" where
  "symbol_base cfg t =
     (case find (\<lambda>(symbol, ti). str_includes t symbol) (tagInputs cfg) of
        None \<Rightarrow> t
      | Some (symbol, ti) \<Rightarrow> trim (hd (js_split t symbol)))"

definition colon_key :: "string \<Rightarrow> string" where
  "colon_key t = hd (js_split t '':'')"

definition colon_value :: "string \<Rightarrow> string" where
  "colon_value t = join '':'' (tl (js_split t '':''))"

definition special_for :: "tags_cfg \<Rightarrow> string \<Rightarrow> special_query option" where
  "special_for cfg t =
     (if \<not> taken_by_symbol cfg t \<and> str_includes t '':''
      then find (\<lambda>q. sq_title q = colon_key t) (specialQueries cfg)
      else None)"

definition special_entry :: "special_query \<Rightarrow> string \<Rightarrow> jsval" where
  "special_entry q t =
     JObj [(''key'', JStr (colon_key t)),
           (''value'', JStr (case sq_parser q of None \<Rightarrow> colon_value t | Some f \<Rightarrow> f (colon_value t)))]"

definition specials_of :: "tags_cfg \<Rightarrow> string list \<Rightarrow> jsval list" where
  "specials_of cfg ts =
     concat (map (\<lambda>t. case special_for cfg t of None \<Rightarrow> [] | Some q \<Rightarrow> [special_entry q t]) ts)"

fun chunk_terms :: "chunk \<Rightarrow> string list" where
  "chunk_terms (Single t) = [t]"
| "chunk_terms (OrGroup ts) = ts"

definition all_terms :: "chunk list \<Rightarrow> string list" where
  "all_terms cks = concat (map chunk_terms cks)"

text \<open>What may stay in the include list: the base of a term taken by the symbol step, and
  a term that is not a special.  What must stay: a colon term whose key matches no title.\<close>

definition residual_of :: "tags_cfg \<Rightarrow> string set \<Rightarrow> string set" where
  "residual_of cfg T =
     {symbol_base cfg t | t. t \<in> T \<and> taken_by_symbol cfg t}
     \<union> {t \<in> T. \<not> taken_by_symbol cfg t \<and> special_for cfg t = None}"

definition unmatched_colon :: "tags_cfg \<Rightarrow> string set \<Rightarrow> string set" where
  "unmatched_colon cfg T =
     {t \<in> T. \<not> taken_by_symbol cfg t \<and> str_includes t '':'' \<and> special_for cfg t = None}"

text \<open>What one run of the term loop must establish, from the state \<open>st\<close> to \<open>st'\<close>
  with \<open>extra\<close> appended to \<open>remainingTerms\<close>.\<close>

definition group_keys :: "extract_state \<Rightarrow> string set" where
  "group_keys st = fst ` set (outputGroups st)"

definition list_names :: "tags_cfg \<Rightarrow> string set" where
  "list_names cfg = ti_list ` snd ` set (tagInputs cfg)"

definition extract_post ::
  "tags_cfg \<Rightarrow> string list \<Rightarrow> extract_state \<Rightarrow> extract_state \<Rightarrow> string list \<Rightarrow> bool" where
  "extract_post cfg ts st st' extra =
     (specials st' = specials st @ specials_of cfg ts
      \<and> length extra \<le> length ts
      \<and> set extra \<subseteq> residual_of cfg (set ts)
      \<and> unmatched_colon cfg (set ts) \<subseteq> set extra
      \<and> group_keys st' \<subseteq> group_keys st \<union> list_names cfg)"

text \<open>What the chunk loop must establish once the chunks \<open>pre\<close> are processed, \<open>R\<close>
  being the terms of the chunks behind them and \<open>out\<close> the terms of the final list.\<close>

definition loop_post ::
  "tags_cfg \<Rightarrow> chunk list \<Rightarrow> string set \<Rightarrow> extract_state \<Rightarrow> extract_state \<Rightarrow> string set \<Rightarrow> bool" where
  "loop_post cfg pre R st st' out =
     (specials st' = specials st @ concat (map (\<lambda>ck. specials_of cfg (chunk_terms ck)) (rev pre))
      \<and> out \<subseteq> residual_of cfg (set (all_terms pre)) \<union> R
      \<and> unmatched_colon cfg (set (all_terms pre)) \<union> R \<subseteq> out
      \<and> group_keys st' \<subseteq> group_keys st \<union> list_names cfg)"

definition cfg_source :: tags_cfg where
  "cfg_source = (new_PuddySqlTags ''tags'')\<lparr> specialQueries := [\<lparr> sq_title = ''source'', sq_parser = None \<rparr>] \<rparr>"

definition cfg_upper :: tags_cfg where
  "cfg_upper = (new_PuddySqlTags ''tags'')\<lparr> specialQueries :=
       [\<lparr> sq_title = ''source'', sq_parser = Some toUpperCase \<rparr>] \<rparr>"

text \<open>The errors of the strict mode of the tokenizer.\<close>

fun is_strict_error :: "error \<Rightarrow> bool" where
  "is_strict_error EmptyInput = True"
| "is_strict_error (ParseLimitExceeded n) = True"
| "is_strict_error (UnexpectedClosingParen i) = True"
| "is_strict_error (UnclosedParen n) = True"
| "is_strict_error (UnclosedQuote q) = True"
| "is_strict_error e = False"


text \<open>The errors the loop can raise, given which of its checks are made.\<close>

definition loop_error :: "tags_cfg \<Rightarrow> bool \<Rightarrow> bool \<Rightarrow> error \<Rightarrow> bool" where
  "loop_error cfg sl sp e =
     ((sl \<and> e = ParseLimitExceeded (parseLimit cfg)) \<or> (sp \<and> (\<exists>j. e = UnexpectedClosingParen j)))"

section \<open>Placeholders of a compiled text\<close>



















section \<open>Properties of the operator registry and the generic compiler\<close>




lemmas registry_eval = new_PuddySqlQuery_def constructor_steps_def addCondition_def addConditionV2_def
      v2_default_def empty_registry_def trim_def is_space_def object_prototype_names_def


lemma default_customValFunc:
  "customValFunc (snd new_PuddySqlQuery) k = (if k \<in> set v2_names then Some (v2_value k) else None)"
  by (simp add: registry_eval v2_names_def)

lemma default_conditions_dom:
  "(conditions (snd new_PuddySqlQuery) k = None) =
     (k \<notin> set ([''LIKE'', ''NOT'', ''='', ''!='', ''>='', ''<='', ''>'', ''<''] @ v2_names))"
  by (simp add: registry_eval v2_names_def)

lemma addCondition_registered:
  "conditions reg k \<noteq> None \<or> customValFunc reg k \<noteq> None \<Longrightarrow>
     \<exists>e. addCondition (JStr k) h v reg = (Some e, reg)"
  by (auto simp: addCondition_def)

lemma addCondition_registers:
  "fst (addCondition (JStr k) h v reg) = None \<Longrightarrow>
     conditions (snd (addCondition (JStr k) h v reg)) k \<noteq> None \<and> trim k \<noteq> []"
  by (auto simp: addCondition_def Let_def split: if_splits vhandler_arg.splits)

lemma addCondition_exists:
  "conditions r k \<noteq> None \<Longrightarrow> trim k \<noteq> [] \<Longrightarrow>
     addCondition (JStr k) h v r = (Some (ConditionKeyExists k), r)"
  by (simp add: addCondition_def)

lemma addCondition_second:
  assumes "fst (addCondition (JStr k) h v reg) = None"
  shows "addCondition (JStr k) h' v' (snd (addCondition (JStr k) h v reg))
           = (Some (ConditionKeyExists k), snd (addCondition (JStr k) h v reg))"
  using addCondition_registers[OF assms] by (intro addCondition_exists) simp_all

lemma addConditionV2_registered:
  "conditions reg k \<noteq> None \<or> customValFunc reg k \<noteq> None \<Longrightarrow>
     \<exists>e. addConditionV2 (JStr k) ed opr reg = (Some e, reg)"
  using addCondition_registered[of reg k]
  by (auto simp: addConditionV2_def split: jsval.splits)

text \<open>
  Claim C6.  Registering under a key that already has a resolver or a value transform
  throws, from \<open>addCondition\<close> as from \<open>addConditionV2\<close>, and the registry after the
  failed call is the registry before it; a second \<open>addCondition\<close> under the key of a
  successful first one throws \<open>Condition key "k" already exists\<close>.
\<close>

theorem registering_twice_throws:
  "(conditions reg k \<noteq> None \<or> customValFunc reg k \<noteq> None \<longrightarrow>
      (\<exists>e. addCondition (JStr k) h v reg = (Some e, reg)) \<and>
      (\<exists>e. addConditionV2 (JStr k) ed opr reg = (Some e, reg)))
   \<and> (fst (addCondition (JStr k) h v reg) = None \<longrightarrow>
        addCondition (JStr k) h' v' (snd (addCondition (JStr k) h v reg))
          = (Some (ConditionKeyExists k), snd (addCondition (JStr k) h v reg)))"
  using addCondition_registered[of reg k h v] addConditionV2_registered[of reg k ed opr]
    addCondition_second[of k h v reg h' v']
  by blast

text \<open>Witness for C6: the key \<open>IN\<close> registered twice on an empty registry, and
  \<open>LIKE\<close> registered again on the constructor's registry.\<close>

theorem registering_twice_throws_witness:
  "fst (addCondition (JStr ''IN'') (HString ''IN'') VNull empty_registry) = None
   \<and> addCondition (JStr ''IN'') (HString ''='') VNull
        (snd (addCondition (JStr ''IN'') (HString ''IN'') VNull empty_registry))
      = (Some (ConditionKeyExists ''IN''),
         snd (addCondition (JStr ''IN'') (HString ''IN'') VNull empty_registry))
   \<and> conditions (snd new_PuddySqlQuery) ''LIKE'' \<noteq> None
   \<and> (\<exists>e. addCondition (JStr ''LIKE'') (HString ''LIKE'') VNull (snd new_PuddySqlQuery)
            = (Some e, snd new_PuddySqlQuery))"
proof -
  have a: "fst (addCondition (JStr ''IN'') (HString ''IN'') VNull empty_registry) = None"
    by (simp add: registry_eval)
  have b: "conditions (snd new_PuddySqlQuery) ''LIKE'' \<noteq> None"
    by (simp add: default_conditions_dom)
  from a b registering_twice_throws[of empty_registry "''IN''" "HString ''IN''" VNull "JBool False" "JStr ''=''" "HString ''=''" VNull]
    registering_twice_throws[of "snd new_PuddySqlQuery" "''LIKE''" "HString ''LIKE''" VNull "JBool False" "JStr ''=''" "HString ''=''" VNull]
  show ?thesis by blast
qed






text \<open>
  Claim C5.  Compiling \<open>{ group: 'OR', conditions: [{column:'status', value:'active'},
  {column:'type', value:'admin'}] }\<close> with the registry the constructor builds, against
  a fresh cache (index 1, no values), returns \<open>(status = $1) OR (type = $2)\<close> and leaves
  the cache with the values \<open>['active', 'admin']\<close> (and index 3).
\<close>

theorem composite_or_example:
  "parseWhere (snd new_PuddySqlQuery) (CacheObject (Some 1) (Some []))
     (JObj [(''group'', JStr ''OR''),
            (''conditions'', JArr [JObj [(''column'', JStr ''status''), (''value'', JStr ''active'')],
                                   JObj [(''column'', JStr ''type''), (''value'', JStr ''admin'')]])])
   = (Inr ''(status = $1) OR (type = $2)'', CacheObject (Some 3) (Some [JStr ''active'', JStr ''admin'']))"
  by (simp add: parseWhere_def parseWhere_node.simps get_prop_def parseWhere_leaf_def resolve_def
      getParamResult_def push_def
      default_customValFunc v2_names_def inherited_call_def show_int_def show_nat.simps digit_char_def
      toUpperCase_def to_upper_char_def)

section \<open>Properties of the tag criteria compilers\<close>

lemma tags_where_Nil: "tags_where cfg fs [] pc = (Inr ''1'', pc)"
  by (simp add: tags_where_def)

lemma cache_of_repair: "cache_of (repair (CacheObject (Some i) (Some vs))) = CacheObject (Some i) (Some vs)"
  by simp

text \<open>
  Counterexample to C3 as stated.  The earlier compiler \<open>TinySqlTags.parseWhere\<close> does not
  throw on a tag criteria without an include list: \<open>group.include || []\<close> makes it the
  empty list, and the call returns \<open>1\<close>.
\<close>

theorem missing_include_counterexample:
  "TinySqlTags_parseWhere (new_PuddySqlTags ''tags'') (JObj [(''column'', JStr ''tags'')])
     (CacheObject (Some 1) (Some []))
   = (Inr ''1'', CacheObject (Some 1) (Some []))"
  by (simp add: TinySqlTags_parseWhere_def get_prop_def iterate_def tags_where_Nil)

text \<open>
  Claim C3, amended.  For every tag criteria whose include list is missing (absent or not
  an array), the current compiler \<open>PuddySqlTags.parseWhere\<close> throws a \<open>TypeError\<close>,
  whatever the cache argument, and leaves the cache as it was: no SQL text is produced.
  The earlier \<open>TinySqlTags.parseWhere\<close> takes an absent (falsy) include list for the
  empty list and returns \<open>1\<close>.
\<close>

theorem missing_include_throws:
  assumes "\<not> isArray (get_prop fs ''include'')"
  shows "(\<exists>msg. PuddySqlTags_parseWhere cfg (JObj fs) pCache = (Inl (TypeError msg), pCache))
       \<and> (\<not> truthy (get_prop fs ''include'') \<longrightarrow>
            TinySqlTags_parseWhere cfg (JObj fs) (CacheObject (Some i) (Some vs))
              = (Inr ''1'', CacheObject (Some i) (Some vs)))"
proof
  show "\<exists>msg. PuddySqlTags_parseWhere cfg (JObj fs) pCache = (Inl (TypeError msg), pCache)"
    using assms
    by (cases pCache; cases "get_prop fs ''include''")
       (auto simp: PuddySqlTags_parseWhere_def split: option.splits)
next
  show "\<not> truthy (get_prop fs ''include'') \<longrightarrow>
            TinySqlTags_parseWhere cfg (JObj fs) (CacheObject (Some i) (Some vs))
              = (Inr ''1'', CacheObject (Some i) (Some vs))"
    by (simp add: TinySqlTags_parseWhere_def iterate_def tags_where_Nil)
qed

text \<open>Witness for C3: a criteria with only a column, and one whose include is a string,
  against a fresh cache.\<close>

theorem missing_include_throws_witness:
  "(\<exists>msg. PuddySqlTags_parseWhere (new_PuddySqlTags ''tags'') (JObj [(''column'', JStr ''tags'')])
            (CacheObject (Some 1) (Some []))
          = (Inl (TypeError msg), CacheObject (Some 1) (Some [])))
   \<and> (\<exists>msg. PuddySqlTags_parseWhere (new_PuddySqlTags ''tags'') (JObj [(''include'', JStr ''cute'')])
            (CacheObject (Some 1) (Some []))
          = (Inl (TypeError msg), CacheObject (Some 1) (Some [])))"
  using missing_include_throws[of "[(''column'', JStr ''tags'')]" "new_PuddySqlTags ''tags''"
          "CacheObject (Some 1) (Some [])"]
        missing_include_throws[of "[(''include'', JStr ''cute'')]" "new_PuddySqlTags ''tags''"
          "CacheObject (Some 1) (Some [])"]
  by (simp add: get_prop_def)

text \<open>
  Claim C9.  For every tag criteria whose include list is the empty array, both compilers
  return the text \<open>1\<close> (not the empty string), given a cache with a numeric index and an
  array of values or no cache argument at all, and the cache is returned as it was: no
  value is appended.
\<close>

theorem empty_include_is_one:
  assumes "get_prop fs ''include'' = JArr []"
  shows "PuddySqlTags_parseWhere cfg (JObj fs) (CacheObject (Some i) (Some vs))
           = (Inr ''1'', CacheObject (Some i) (Some vs))
       \<and> TinySqlTags_parseWhere cfg (JObj fs) (CacheObject (Some i) (Some vs))
           = (Inr ''1'', CacheObject (Some i) (Some vs))
       \<and> PuddySqlTags_parseWhere cfg (JObj fs) CacheUndefined = (Inr ''1'', CacheUndefined)
       \<and> TinySqlTags_parseWhere cfg (JObj fs) CacheUndefined = (Inr ''1'', CacheUndefined)
       \<and> ''1'' \<noteq> ([] :: string)"
  using assms
  by (simp add: PuddySqlTags_parseWhere_def TinySqlTags_parseWhere_def iterate_def tags_where_Nil)

text \<open>Witness for C9: \<open>{ column: 'tags', include: [] }\<close> against a cache that already
  holds a value.\<close>

theorem empty_include_is_one_witness:
  "PuddySqlTags_parseWhere (new_PuddySqlTags ''tags'')
      (JObj [(''column'', JStr ''tags''), (''include'', JArr [])]) (CacheObject (Some 2) (Some [JStr ''x'']))
     = (Inr ''1'', CacheObject (Some 2) (Some [JStr ''x'']))
   \<and> TinySqlTags_parseWhere (new_PuddySqlTags ''tags'')
      (JObj [(''column'', JStr ''tags''), (''include'', JArr [])]) (CacheObject (Some 2) (Some [JStr ''x'']))
     = (Inr ''1'', CacheObject (Some 2) (Some [JStr ''x'']))"
  using empty_include_is_one[of "[(''column'', JStr ''tags''), (''include'', JArr [])]"
          "new_PuddySqlTags ''tags''" 2 "[JStr ''x'']"]
  by (simp add: get_prop_def)

text \<open>
  Counterexample to C10 as stated.  \<open>undefined\<close> is not a plain object, but an
  \<open>undefined\<close> argument takes the parameter's default: with the group \<open>undefined\<close> the
  call compiles \<open>{}\<close> and returns \<open>1\<close>, and with the cache \<open>undefined\<close> the criteria
  \<open>{ include: ['cute'] }\<close> compiles against a fresh cache to a non-empty text.
\<close>

theorem tiny_undefined_argument_counterexample:
  "\<not> isJsonObject JUndef
   \<and> TinySqlTags_parseWhere (new_PuddySqlTags ''tags'') JUndef (CacheObject (Some 1) (Some []))
       = (Inr ''1'', CacheObject (Some 1) (Some []))
   \<and> TinySqlTags_parseWhere (new_PuddySqlTags ''tags'') (JObj [(''include'', JArr [JStr ''cute''])])
         CacheUndefined
       = (Inr ''(EXISTS (SELECT 1 FROM json_array_elements_text(tags) WHERE value = $1))'',
          CacheUndefined)"
  by (simp add: TinySqlTags_parseWhere_def get_prop_def iterate_def tags_where_def tagQuery_def
      filterTag_def createQuery_def new_PuddySqlTags_def opt_string_def startsWith_def
      show_int_def show_nat.simps digit_char_def)

text \<open>
  Claim C10, amended.  For every call of \<open>TinySqlTags.parseWhere\<close> whose group or cache
  argument is given (not \<open>undefined\<close>) and is not a plain object, the call returns the
  empty string, not \<open>1\<close> and not an error, and the cache is returned as it was.
\<close>

theorem tiny_not_object_is_empty:
  assumes "pCache = CacheNotObject \<or> (grp \<noteq> JUndef \<and> \<not> isJsonObject grp)"
  shows "TinySqlTags_parseWhere cfg grp pCache = (Inr [], pCache)"
  using assms by (cases grp) (auto simp: TinySqlTags_parseWhere_def)

text \<open>Witness for C10: the group \<open>null\<close> with a proper cache, and a proper group with a
  cache that is not an object.\<close>

theorem tiny_not_object_is_empty_witness:
  "TinySqlTags_parseWhere (new_PuddySqlTags ''tags'') JNull (CacheObject (Some 1) (Some []))
     = (Inr [], CacheObject (Some 1) (Some []))
   \<and> TinySqlTags_parseWhere (new_PuddySqlTags ''tags'') (JObj [(''include'', JArr [JStr ''cute''])])
       CacheNotObject
     = (Inr [], CacheNotObject)"
  using tiny_not_object_is_empty[of "CacheObject (Some 1) (Some [])" JNull "new_PuddySqlTags ''tags''"]
        tiny_not_object_is_empty[of CacheNotObject "JObj [(''include'', JArr [JStr ''cute''])]"
          "new_PuddySqlTags ''tags''"]
  by simp







section \<open>Properties of the specials extraction\<close>

lemma split_from_nonempty: "split_from sep acc s \<noteq> []"
  by (induction sep acc s rule: split_from.induct) auto

lemma split_from_two:
  "sep \<noteq> [] \<Longrightarrow> str_includes s sep \<Longrightarrow> \<exists>a b r. split_from sep acc s = a # b # r"
proof (induction sep acc s rule: split_from.induct)
  case (1 sep acc)
  then show ?case by simp
next
  case (2 sep acc c cs)
  show ?case
  proof (cases "startsWith (c # cs) sep")
    case True
    obtain b r where "split_from sep [] (drop (length sep - 1) cs) = b # r"
      using split_from_nonempty[of sep "[]" "drop (length sep - 1) cs"] by (cases "split_from sep [] (drop (length sep - 1) cs)") auto
    with True 2(3) show ?thesis by simp
  next
    case False
    with 2 show ?thesis by simp
  qed
qed

lemma mem_obj_set: "(k' \<in> fst ` set (obj_set k v ps)) = (k' = k \<or> k' \<in> fst ` set ps)"
proof (induction ps)
  case Nil
  show ?case by simp
next
  case (Cons p ps)
  obtain a b where p: "p = (a, b)" by (cases p)
  show ?case
  proof (cases "a = k")
    case True
    then show ?thesis by (simp add: p; blast)
  next
    case False
    then show ?thesis using Cons.IH by (simp add: p; blast)
  qed
qed

lemma keys_obj_set: "fst ` set (obj_set k v ps) = insert k (fst ` set ps)"
  using mem_obj_set[of _ k v ps] by blast

lemma map_of_obj_set: "map_of (obj_set k v ps) k' = (if k' = k then Some v else map_of ps k')"
  by (induction ps) auto

lemma find_Some_mem: "find P xs = Some x \<Longrightarrow> x \<in> set xs \<and> P x"
  by (induction xs) (auto split: if_splits)

lemma extract_term_result:
  assumes ne: "[] \<notin> fst ` set (tagInputs cfg)"
  shows "\<exists>st' extra. extract_term cfg pf isArr t (st, rem) = Inr (st', rem @ extra)
           \<and> extract_post cfg [t] st st' extra"
proof (cases "find (\<lambda>(symbol, ti). str_includes t symbol) (tagInputs cfg)")
  case None
  then have nt: "\<not> taken_by_symbol cfg t" by (simp add: taken_by_symbol_def)
  show ?thesis
  proof (cases "str_includes t '':''")
    case True
    show ?thesis
    proof (cases "find (\<lambda>q. sq_title q = colon_key t) (specialQueries cfg)")
      case n: None
      with None True nt show ?thesis
        by (auto simp: extract_term_def extract_post_def Let_def specials_of_def special_for_def
            colon_key_def residual_of_def unmatched_colon_def group_keys_def)
    next
      case (Some q)
      with None True nt show ?thesis
        by (auto simp: extract_term_def extract_post_def Let_def specials_of_def special_for_def
            colon_key_def colon_value_def special_entry_def residual_of_def unmatched_colon_def
            group_keys_def split: option.splits)
    qed
  next
    case False
    with None nt show ?thesis
      by (auto simp: extract_term_def extract_post_def Let_def specials_of_def special_for_def
          residual_of_def unmatched_colon_def group_keys_def)
  qed
next
  case (Some p)
  obtain symbol ti where p: "p = (symbol, ti)" by (cases p)
  from Some p have mem: "(symbol, ti) \<in> set (tagInputs cfg)" and inc: "str_includes t symbol"
    using find_Some_mem[of "\<lambda>(symbol, ti). str_includes t symbol" "tagInputs cfg" p] by auto
  from mem ne have "symbol \<noteq> []" by force
  with inc obtain a b r where sp: "js_split t symbol = a # b # r"
    using split_from_two[of symbol t "[]"] by (auto simp: js_split_def)
  from Some have tk: "taken_by_symbol cfg t" by (simp add: taken_by_symbol_def)
  have base: "symbol_base cfg t = trim a"
    using Some p sp by (simp add: symbol_base_def)
  have li: "ti_list ti \<in> list_names cfg"
    using mem by (force simp: list_names_def)
  show ?thesis
    using Some p sp tk base li
    by (auto simp: extract_term_def extract_post_def Let_def specials_of_def special_for_def
        residual_of_def unmatched_colon_def group_keys_def keys_obj_set)
qed

lemma residual_of_Un: "residual_of cfg (A \<union> B) = residual_of cfg A \<union> residual_of cfg B"
  by (auto simp: residual_of_def)

lemma unmatched_colon_Un: "unmatched_colon cfg (A \<union> B) = unmatched_colon cfg A \<union> unmatched_colon cfg B"
  by (auto simp: unmatched_colon_def)

lemma specials_of_append: "specials_of cfg (ts @ us) = specials_of cfg ts @ specials_of cfg us"
  by (simp add: specials_of_def)

lemma extract_post_Nil: "extract_post cfg [] st st []"
  by (simp add: extract_post_def residual_of_def unmatched_colon_def specials_of_def)

lemma extract_post_trans:
  assumes a: "extract_post cfg ts st st1 e1" and b: "extract_post cfg us st1 st2 e2"
  shows "extract_post cfg (ts @ us) st st2 (e1 @ e2)"
proof -
  have 1: "specials st2 = specials st @ specials_of cfg (ts @ us)"
    using a b by (simp add: extract_post_def specials_of_append)
  have 2: "length (e1 @ e2) \<le> length (ts @ us)"
    using a b by (simp add: extract_post_def)
  have "set e1 \<subseteq> residual_of cfg (set ts)" "set e2 \<subseteq> residual_of cfg (set us)"
    using a b by (simp_all add: extract_post_def)
  then have 3: "set (e1 @ e2) \<subseteq> residual_of cfg (set (ts @ us))"
    unfolding set_append residual_of_Un by blast
  have "unmatched_colon cfg (set ts) \<subseteq> set e1" "unmatched_colon cfg (set us) \<subseteq> set e2"
    using a b by (simp_all add: extract_post_def)
  then have 4: "unmatched_colon cfg (set (ts @ us)) \<subseteq> set (e1 @ e2)"
    unfolding set_append unmatched_colon_Un by blast
  have "group_keys st1 \<subseteq> group_keys st \<union> list_names cfg"
       "group_keys st2 \<subseteq> group_keys st1 \<union> list_names cfg"
    using a b by (simp_all add: extract_post_def)
  then have 5: "group_keys st2 \<subseteq> group_keys st \<union> list_names cfg"
    by blast
  from 1 2 3 4 5 show ?thesis unfolding extract_post_def by (intro conjI)
qed

lemma extract_terms_result:
  assumes ne: "[] \<notin> fst ` set (tagInputs cfg)"
  shows "\<exists>st' extra. extract_terms cfg pf isArr ts (st, rem) = Inr (st', rem @ extra)
           \<and> extract_post cfg ts st st' extra"
proof (induction ts arbitrary: st rem)
  case Nil
  show ?case using extract_post_Nil[of cfg st] by simp
next
  case (Cons t ts)
  from extract_term_result[OF ne, of pf isArr t st rem]
  obtain st1 e1 where s1: "extract_term cfg pf isArr t (st, rem) = Inr (st1, rem @ e1)"
      and p1: "extract_post cfg [t] st st1 e1"
    by (elim exE conjE)
  from Cons.IH[of st1 "rem @ e1"]
  obtain st2 e2 where s2: "extract_terms cfg pf isArr ts (st1, rem @ e1) = Inr (st2, (rem @ e1) @ e2)"
      and p2: "extract_post cfg ts st1 st2 e2"
    by (elim exE conjE)
  have run: "extract_terms cfg pf isArr (t # ts) (st, rem) = Inr (st2, rem @ (e1 @ e2))"
    using s1 s2 by simp
  have post: "extract_post cfg (t # ts) st st2 (e1 @ e2)"
    using extract_post_trans[OF p1 p2] by simp
  from run post show ?case by (intro exI conjI)
qed


lemma all_terms_append: "all_terms (xs @ ys) = all_terms xs @ all_terms ys"
  by (simp add: all_terms_def)

lemma loop_post_Nil: "loop_post cfg [] R st st R"
  by (simp add: loop_post_def all_terms_def residual_of_def unmatched_colon_def)

lemma loop_post_step:
  assumes e: "extract_post cfg (chunk_terms g) st st1 extra"
    and r: "loop_post cfg pre (set extra \<union> R) st1 st' out"
  shows "loop_post cfg (pre @ [g]) R st st' out"
proof -
  define A where "A = set (all_terms pre)"
  define G where "G = set (chunk_terms g)"
  define E where "E = set extra"
  have at: "set (all_terms (pre @ [g])) = A \<union> G"
    by (simp add: all_terms_append A_def G_def) (simp add: all_terms_def)
  have 1: "specials st' = specials st @ concat (map (\<lambda>ck. specials_of cfg (chunk_terms ck)) (rev (pre @ [g])))"
    using e r by (simp add: extract_post_def loop_post_def)
  have e4: "E \<subseteq> residual_of cfg G" and e5: "unmatched_colon cfg G \<subseteq> E"
    using e by (simp_all add: extract_post_def E_def G_def)
  have r3: "out \<subseteq> residual_of cfg A \<union> (E \<union> R)"
    and r4: "unmatched_colon cfg A \<union> (E \<union> R) \<subseteq> out"
    using r by (simp_all add: loop_post_def E_def A_def)
  have 2: "out \<subseteq> residual_of cfg (A \<union> G) \<union> R"
    unfolding residual_of_Un using r3 e4 by blast
  have 3: "unmatched_colon cfg (A \<union> G) \<union> R \<subseteq> out"
    unfolding unmatched_colon_Un using r4 e5 by blast
  have "group_keys st1 \<subseteq> group_keys st \<union> list_names cfg"
       "group_keys st' \<subseteq> group_keys st1 \<union> list_names cfg"
    using e r by (simp_all add: extract_post_def loop_post_def)
  then have 4: "group_keys st' \<subseteq> group_keys st \<union> list_names cfg"
    by blast
  from 1 2 3 4 show ?thesis unfolding loop_post_def at by (intro conjI)
qed

lemma extract_loop_result:
  assumes ne: "[] \<notin> fst ` set (tagInputs cfg)"
  shows "n \<le> length cks \<Longrightarrow>
     \<exists>cks' st'. extract_loop cfg pf n cks st = Inr (cks', st')
        \<and> loop_post cfg (take n cks) (set (all_terms (drop n cks))) st st' (set (all_terms cks'))"
proof (induction n arbitrary: cks st)
  case 0
  show ?case using loop_post_Nil[of cfg "set (all_terms cks)" st] by simp
next
  case (Suc i)
  then have i: "i < length cks" by simp
  define grp where "grp = cks ! i"
  define isArr where "isArr = (case grp of OrGroup ts \<Rightarrow> True | Single t \<Rightarrow> False)"
  have terms: "(case grp of OrGroup ts \<Rightarrow> ts | Single t \<Rightarrow> [t]) = chunk_terms grp"
    by (cases grp) auto
  from extract_terms_result[OF ne, of pf isArr "chunk_terms grp" st "[]"]
  obtain st1 extra where e: "extract_terms cfg pf isArr (chunk_terms grp) (st, []) = Inr (st1, [] @ extra)"
    and ep: "extract_post cfg (chunk_terms grp) st st1 extra"
    by (elim exE conjE)
  define cks2 where "cks2 = (if extra = [] then take i cks @ drop (Suc i) cks
                else cks[i := (if isArr then OrGroup extra else Single (hd extra))])"
  have len2: "i \<le> length cks2" using i by (auto simp: cks2_def)
  have tk2: "take i cks2 = take i cks" using i by (auto simp: cks2_def)
  have le: "length extra \<le> length (chunk_terms grp)"
    using ep by (simp add: extract_post_def)
  have hdx: "\<not> isArr \<Longrightarrow> extra \<noteq> [] \<Longrightarrow> [hd extra] = extra"
    using le unfolding isArr_def by (cases grp; cases extra) auto
  have upd: "drop i (cks[i := x]) = x # drop (Suc i) cks" for x
    using i by (simp add: upd_conv_take_nth_drop)
  have dr2: "set (all_terms (drop i cks2)) = set extra \<union> set (all_terms (drop (Suc i) cks))"
  proof (cases "extra = []")
    case True
    then show ?thesis using i by (simp add: cks2_def)
  next
    case False
    show ?thesis
    proof (cases isArr)
      case True
      with False show ?thesis by (simp add: cks2_def upd all_terms_def)
    next
      case nArr: False
      with False hdx have "[hd extra] = extra" by simp
      with False nArr show ?thesis by (simp add: cks2_def upd all_terms_def)
    qed
  qed
  from Suc.IH[OF len2, of st1]
  obtain cks' st' where r: "extract_loop cfg pf i cks2 st1 = Inr (cks', st')"
    and rp: "loop_post cfg (take i cks2) (set (all_terms (drop i cks2))) st1 st' (set (all_terms cks'))"
    by (elim exE conjE)
  have step: "extract_loop cfg pf (Suc i) cks st = extract_loop cfg pf i cks2 st1"
    using e by (simp add: Let_def terms cks2_def grp_def[symmetric] isArr_def[symmetric])
  have tkS: "take (Suc i) cks = take i cks @ [grp]"
    using i by (simp add: take_Suc_conv_app_nth grp_def)
  have "loop_post cfg (take i cks @ [grp]) (set (all_terms (drop (Suc i) cks))) st st' (set (all_terms cks'))"
    using loop_post_step[OF ep, of "take i cks" "set (all_terms (drop (Suc i) cks))" st' "set (all_terms cks')"] rp
    by (simp add: tk2 dr2)
  with step r tkS show ?case by simp
qed

lemma mem_foldl_keys:
  "(k \<in> fst ` set (foldl (\<lambda>og (symbol, ti). obj_set (ti_list ti) v og) og0 xs))
     = (k \<in> fst ` set og0 \<or> k \<in> ti_list ` snd ` set xs)"
proof (induction xs arbitrary: og0)
  case Nil
  show ?case by simp
next
  case (Cons x xs)
  obtain symbol ti where x: "x = (symbol, ti)" by (cases x)
  show ?case
    by (simp add: x Cons.IH mem_obj_set; blast)
qed

lemma init_keys: "group_keys (init_extract cfg) \<subseteq> list_names cfg"
  using mem_foldl_keys[of _ "[]" "[]" "tagInputs cfg"]
  by (auto simp: group_keys_def list_names_def init_extract_def)

lemma get_prop_obj_set: "get_prop (obj_set k v ps) k' = (if k' = k then v else get_prop ps k')"
  by (simp add: get_prop_def map_of_obj_set)

lemma get_prop_result:
  "k \<notin> fst ` set og \<Longrightarrow>
     get_prop (foldl (\<lambda>obj (name, entries). obj_set name (JArr entries) obj) obj0 og) k = get_prop obj0 k"
proof (induction og arbitrary: obj0)
  case Nil
  show ?case by simp
next
  case (Cons p og)
  obtain name entries where p: "p = (name, entries)" by (cases p)
  from Cons.prems have "k \<noteq> name" and "k \<notin> fst ` set og" by (auto simp: p)
  then show ?case using Cons.IH[of "obj_set name (JArr entries) obj0"]
    by (simp add: p get_prop_obj_set)
qed

lemma source_example:
  "PuddySqlTags_parseString cfg_source pf (JStr ''source:ponybooru'') False (JObj [])
   = Inr (JObj [(''column'', JStr ''tags''), (''include'', JArr []),
        (''specials'', JArr [JObj [(''key'', JStr ''source''), (''value'', JStr ''ponybooru'')]]),
        (''boosts'', JArr []), (''fuzzies'', JArr [])])"
proof -
  have n1: "normalize_ws ''source:ponybooru'' = ''source:ponybooru''"
    by (simp add: normalize_ws_def trim_def is_space_def)
  have tk: "tokenize cfg_source False (JObj []) ''source:ponybooru'' = Inr [Single ''source:ponybooru'']"
    by (simp add: tokenize_def scan.simps(2) init_state_def toUpperCase_def to_upper_char_def
      flushBuffer_def flushGroup_def trim_def is_space_def cfg_source_def new_PuddySqlTags_def Let_def)
  have ex: "extractSpecialsFromChunks cfg_source pf [Single ''source:ponybooru'']
     = Inr ([], [(''specials'', JArr [JObj [(''key'', JStr ''source''), (''value'', JStr ''ponybooru'')]]),
            (''boosts'', JArr []), (''fuzzies'', JArr [])])"
    by (simp add: extractSpecialsFromChunks_def init_extract_def extract_term_def startsWith_def
        js_split_def cfg_source_def new_PuddySqlTags_def)
  show ?thesis
    by (simp add: PuddySqlTags_parseString_def n1 tk ex) (simp add: cfg_source_def new_PuddySqlTags_def)
qed

text \<open>
  Claim C8.  With no empty symbol among the tag inputs, the extraction never throws, and
  for every chunk list: the specials are, chunk by chunk from the last to the first, the
  entries \<open>{ key, value }\<close> of the terms that are not taken by the symbol step, contain
  a colon and have a key equal to a registered title, the value passed through the
  special's parser when it has one (\<open>specials_of\<close>); the result object carries them
  under \<open>specials\<close> unless a tag input's list has that very name; every term left in the
  chunk list is the base of a symbol term or a term that is not such a special; and every
  colon term whose key matches no title is still in the chunk list.  With a special
  titled \<open>source\<close>, \<open>source:ponybooru\<close> parses to the specials
  \<open>[{key:'source', value:'ponybooru'}]\<close> and an empty include list, in both tokenizers.
\<close>

theorem specials_are_extracted:
  assumes ne: "[] \<notin> fst ` set (tagInputs cfg)"
  shows "(\<exists>cks' obj. extractSpecialsFromChunks cfg pf cks = Inr (cks', obj)
            \<and> (''specials'' \<notin> list_names cfg \<longrightarrow>
                 get_prop obj ''specials''
                   = JArr (concat (map (\<lambda>ck. specials_of cfg (chunk_terms ck)) (rev cks))))
            \<and> set (all_terms cks') \<subseteq> residual_of cfg (set (all_terms cks))
            \<and> unmatched_colon cfg (set (all_terms cks)) \<subseteq> set (all_terms cks'))
       \<and> PuddySqlTags_parseString cfg_source pf (JStr ''source:ponybooru'') False (JObj [])
           = Inr (JObj [(''column'', JStr ''tags''), (''include'', JArr []),
                (''specials'', JArr [JObj [(''key'', JStr ''source''), (''value'', JStr ''ponybooru'')]]),
                (''boosts'', JArr []), (''fuzzies'', JArr [])])
       \<and> TinySqlTags_parseString cfg_source pf (JStr ''source:ponybooru'')
           = Inr (JObj [(''column'', JStr ''tags''), (''include'', JArr []),
                (''specials'', JArr [JObj [(''key'', JStr ''source''), (''value'', JStr ''ponybooru'')]]),
                (''boosts'', JArr []), (''fuzzies'', JArr [])])"
proof -
  from extract_loop_result[OF ne order_refl, where cks = cks and pf = pf and st = "init_extract cfg"]
  obtain cks' st' where r: "extract_loop cfg pf (length cks) cks (init_extract cfg) = Inr (cks', st')"
    and rp: "loop_post cfg (take (length cks) cks) (set (all_terms (drop (length cks) cks)))
               (init_extract cfg) st' (set (all_terms cks'))"
    by (elim exE conjE)
  define obj where "obj = foldl (\<lambda>obj (name, entries). obj_set name (JArr entries) obj)
                 [(''specials'', JArr (specials st'))] (outputGroups st')"
  have run: "extractSpecialsFromChunks cfg pf cks = Inr (cks', obj)"
    using r by (simp add: extractSpecialsFromChunks_def obj_def)
  have sp: "specials st' = concat (map (\<lambda>ck. specials_of cfg (chunk_terms ck)) (rev cks))"
    using rp by (simp add: loop_post_def init_extract_def)
  have sub: "set (all_terms cks') \<subseteq> residual_of cfg (set (all_terms cks))"
    using rp by (simp add: loop_post_def all_terms_def)
  have sup: "unmatched_colon cfg (set (all_terms cks)) \<subseteq> set (all_terms cks')"
    using rp by (simp add: loop_post_def all_terms_def)
  have keys: "group_keys st' \<subseteq> list_names cfg"
    using rp init_keys[of cfg] by (simp add: loop_post_def) blast
  have gp: "''specials'' \<notin> list_names cfg \<longrightarrow>
      get_prop obj ''specials'' = JArr (concat (map (\<lambda>ck. specials_of cfg (chunk_terms ck)) (rev cks)))"
  proof
    assume "''specials'' \<notin> list_names cfg"
    with keys have "''specials'' \<notin> fst ` set (outputGroups st')"
      by (auto simp: group_keys_def)
    from get_prop_result[OF this, of "[(''specials'', JArr (specials st'))]"]
    show "get_prop obj ''specials'' = JArr (concat (map (\<lambda>ck. specials_of cfg (chunk_terms ck)) (rev cks)))"
      by (simp add: obj_def get_prop_def sp)
  qed
  from run gp sub sup source_example[of pf] show ?thesis
    by (simp add: TinySqlTags_parseString_def)
qed


text \<open>Witness for C8: a special titled \<open>source\<close> whose parser upper-cases, and the chunks
  \<open>source:pony\<close> and \<open>(a:b OR c)\<close>: the special is extracted with the parsed value, the
  term is gone from the chunk list, and \<open>a:b\<close>, whose key matches no title, stays.\<close>

theorem specials_are_extracted_witness:
  "\<exists>cks' obj. extractSpecialsFromChunks cfg_upper (\<lambda>s. None)
                    [Single ''source:pony'', OrGroup [''a:b'', ''c'']] = Inr (cks', obj)
      \<and> get_prop obj ''specials'' = JArr [JObj [(''key'', JStr ''source''), (''value'', JStr ''PONY'')]]
      \<and> ''a:b'' \<in> set (all_terms cks')
      \<and> ''source:pony'' \<notin> set (all_terms cks')"
proof -
  have ne: "[] \<notin> fst ` set (tagInputs cfg_upper)"
    by (simp add: cfg_upper_def new_PuddySqlTags_def)
  from specials_are_extracted[OF ne, of "\<lambda>s. None" "[Single ''source:pony'', OrGroup [''a:b'', ''c'']]"]
  obtain cks' obj where run: "extractSpecialsFromChunks cfg_upper (\<lambda>s. None)
                    [Single ''source:pony'', OrGroup [''a:b'', ''c'']] = Inr (cks', obj)"
    and gp: "''specials'' \<notin> list_names cfg_upper \<longrightarrow>
                 get_prop obj ''specials''
                   = JArr (concat (map (\<lambda>ck. specials_of cfg_upper (chunk_terms ck))
                                     (rev [Single ''source:pony'', OrGroup [''a:b'', ''c'']])))"
    and sub: "set (all_terms cks') \<subseteq> residual_of cfg_upper (set (all_terms [Single ''source:pony'', OrGroup [''a:b'', ''c'']]))"
    and sup: "unmatched_colon cfg_upper (set (all_terms [Single ''source:pony'', OrGroup [''a:b'', ''c'']])) \<subseteq> set (all_terms cks')"
    by (elim exE conjE)
  have taken: "\<not> taken_by_symbol cfg_upper ''source:pony''" "\<not> taken_by_symbol cfg_upper ''a:b''"
      "\<not> taken_by_symbol cfg_upper ''c''"
    by (simp_all add: taken_by_symbol_def cfg_upper_def new_PuddySqlTags_def startsWith_def)
  have sf: "special_for cfg_upper ''source:pony'' = Some \<lparr> sq_title = ''source'', sq_parser = Some toUpperCase \<rparr>"
      "special_for cfg_upper ''a:b'' = None" "special_for cfg_upper ''c'' = None"
    using taken
    by (simp_all add: special_for_def colon_key_def js_split_def startsWith_def)
       (simp_all add: cfg_upper_def new_PuddySqlTags_def)
  have names: "''specials'' \<notin> list_names cfg_upper"
    by (simp add: list_names_def cfg_upper_def new_PuddySqlTags_def)
  have sp: "concat (map (\<lambda>ck. specials_of cfg_upper (chunk_terms ck))
                (rev [Single ''source:pony'', OrGroup [''a:b'', ''c'']]))
            = [JObj [(''key'', JStr ''source''), (''value'', JStr ''PONY'')]]"
    by (simp add: specials_of_def sf special_entry_def colon_key_def colon_value_def js_split_def
        startsWith_def toUpperCase_def to_upper_char_def)
  have k: "''a:b'' \<in> unmatched_colon cfg_upper (set (all_terms [Single ''source:pony'', OrGroup [''a:b'', ''c'']]))"
    using taken sf by (simp add: unmatched_colon_def all_terms_def startsWith_def)
  have nk: "''source:pony'' \<notin> residual_of cfg_upper (set (all_terms [Single ''source:pony'', OrGroup [''a:b'', ''c'']]))"
    using taken sf by (auto simp: residual_of_def all_terms_def)
  from run gp names sp sub sup k nk show ?thesis by (intro exI[of _ cks'] exI[of _ obj]) auto
qed

section \<open>Properties of the tokenizer\<close>

















lemma loop_error_strict: "loop_error cfg sl sp e \<Longrightarrow> is_strict_error e"
  by (auto simp: loop_error_def)


















section \<open>Properties of the placeholder cache\<close>










































































end
